theory Spec2Isabelle
  imports Complex_Main "HOL-Library.Word" "HOL-Library.Sublist"
begin

section \<open>The recording and transcription script \<^verbatim>\<open>local_asr.py\<close>\<close>

text \<open>
  The script parses its command line, creates the output directory, loads a
  faster-whisper model, records from the microphone, writes the recording as a
  16-bit WAV file and transcribes that file. Every function of the script is
  embedded below under its own name. The collaborators the script calls (argparse,
  the file system, torch, faster-whisper, sounddevice, scipy, the clock) are not
  part of the script: what they answer on one run is collected in a record
  \<open>world\<close>, and every call the script makes to one of them is logged as an
  \<open>event\<close>, in the order of the calls.

  Two things are left out. Progress and error messages written to standard output
  are not logged (only the final transcript block is, as \<open>Display\<close>). A
  \<^verbatim>\<open>KeyboardInterrupt\<close> arrives asynchronously and is no answer of a
  collaborator; the handler of \<^verbatim>\<open>main\<close> for it (exit status 0) has
  therefore no counterpart here. Every failure of a collaborator is an exception
  derived from \<^verbatim>\<open>Exception\<close>.
\<close>

subsection \<open>Values\<close>

text \<open>The choices of \<^verbatim>\<open>--model\<close>.\<close>

datatype model_size = Tiny | Base | Small | Medium | Large

text \<open>The namespace returned by \<^verbatim>\<open>parse_arguments\<close>; Python integers are unbounded.\<close>

record args =
  duration :: int
  model :: model_size
  sample_rate :: int
  download_latest :: bool

text \<open>
  A Python \<^verbatim>\<open>str\<close> is a sequence of Unicode code points. Segment texts and the
  transcript are lists of code points, because \<^verbatim>\<open>str.strip\<close> looks at
  code points beyond one byte. File names and timestamps are plain strings.
\<close>

type_synonym py_str = "nat list"

definition py :: "string \<Rightarrow> py_str" where
  "py s = map of_char s"

text \<open>A stored WAV sample; \<open>None\<close> where the conversion leaves the value to the platform.\<close>

type_synonym sample = "16 word option"

text \<open>The object built by \<^verbatim>\<open>WhisperModel(model_size, device=..., compute_type=...)\<close>.\<close>

record whisper_model =
  loaded_size :: model_size
  device :: string
  compute_type :: string

text \<open>
  One element of the lazy segment sequence returned by \<^verbatim>\<open>model.transcribe\<close>;
  only the attribute \<^verbatim>\<open>text\<close> is read by the script.
\<close>

record segment =
  segment_text :: py_str

text \<open>
  The generator of segments: it is exhausted, or yields a segment and goes on, or
  raises while the script iterates over it. An audio file has a finite length, so a
  generator yields finitely many segments.
\<close>

datatype segments = Exhausted | Yield segment segments | Faulty

text \<open>What \<^verbatim>\<open>model.transcribe(...)\<close> does: it raises, or returns a generator.\<close>

datatype recognition = CallRaises | Generator segments

text \<open>
  What \<^verbatim>\<open>import torch; torch.cuda.is_available()\<close> does: the import fails with
  \<^verbatim>\<open>ImportError\<close>, or the probe answers.
\<close>

datatype probe = ImportError | Available bool

subsection \<open>Control: results, events, the world\<close>

text \<open>
  A call returns a value, raises an exception derived from \<^verbatim>\<open>Exception\<close>, or
  leaves through \<^verbatim>\<open>sys.exit(n)\<close>. \<^verbatim>\<open>SystemExit\<close> is not derived from
  \<^verbatim>\<open>Exception\<close>, so no handler of the script catches it.
\<close>

datatype 'a outcome = Returns 'a | Raises | Exits int

datatype event =
    Makedirs string
  | CudaProbe
  | DownloadModel model_size
  | LoadModel model_size string string
  | SdRec int int
  | Tick int
  | SdWait
  | WriteWav string int "sample list"
  | Transcribe string
  | Display py_str

type_synonym 'a run = "event list \<times> 'a outcome"

record world =
  cli :: "args outcome"
  dir_exists :: bool
  makedirs_fails :: bool
  torch :: probe
  download_fails :: bool
  load_fails :: bool
  rec_fails :: bool
  microphone :: "nat \<Rightarrow> real"
  wait_fails :: bool
  now :: string
  write_fails :: bool
  engine :: "string \<Rightarrow> recognition"

text \<open>Sequencing of two statements: the second runs only if the first returns.\<close>

definition and_then :: "'a run \<Rightarrow> ('a \<Rightarrow> 'b run) \<Rightarrow> 'b run" where
  "and_then m f = (case m of
      (t, Returns x) \<Rightarrow> (case f x of (t', r) \<Rightarrow> (t @ t', r))
    | (t, Raises) \<Rightarrow> (t, Raises)
    | (t, Exits n) \<Rightarrow> (t, Exits n))"

text \<open>A call of a collaborator: the event is logged, the world says whether it raises.\<close>

definition call :: "event \<Rightarrow> bool \<Rightarrow> 'a \<Rightarrow> 'a run" where
  "call e fails x = ([e], if fails then Raises else Returns x)"

text \<open>The handler \<^verbatim>\<open>except Exception as e: ...; sys.exit(1)\<close>.\<close>

definition except_exit :: "'a run \<Rightarrow> 'a run" where
  "except_exit m = (case m of (t, Raises) \<Rightarrow> (t, Exits 1) | (t, r) \<Rightarrow> (t, r))"

text \<open>The handler \<^verbatim>\<open>except Exception as e: ...; return v\<close>.\<close>

definition except_return :: "'a \<Rightarrow> 'a run \<Rightarrow> 'a run" where
  "except_return v m = (case m of (t, Raises) \<Rightarrow> (t, Returns v) | (t, r) \<Rightarrow> (t, r))"

subsection \<open>Single-precision arithmetic and the conversion to 16 bits\<close>

text \<open>
  The recording is an array of \<^verbatim>\<open>float32\<close>. A finite float is the real number
  it denotes, so what holds for every real amplitude holds for every float. In
  \<^verbatim>\<open>audio_data * 32767\<close> the integer becomes the float 32767.0 and the
  multiplication is a float32 multiplication: the exact product rounded once to the
  nearest float32, ties to the even significand (IEEE 754). \<open>f32_exponent\<close> is the binary exponent of the result's binade, at
  least -126 (below are the subnormal numbers); the spacing of the floats there is
  \<open>2 powi (e - 23)\<close>. A result of magnitude \<open>2 powi 128\<close> or more is an infinity,
  \<open>None\<close> here.
\<close>

definition rne :: "real \<Rightarrow> int" where
  "rne x = (let n = \<lfloor>x\<rfloor>; d = x - of_int n in
     if d < 1 / 2 then n else if 1 / 2 < d then n + 1 else if even n then n else n + 1)"

definition f32_exponent :: "real \<Rightarrow> int" where
  "f32_exponent x =
     (case find (\<lambda>e. \<bar>x\<bar> < 2 powi (e + 1)) [-126..127] of Some e \<Rightarrow> e | None \<Rightarrow> 127)"

definition f32_round :: "real \<Rightarrow> real option" where
  "f32_round x = (let q = 2 powi (f32_exponent x - 23); r = of_int (rne (x / q)) * q
     in if \<bar>r\<bar> < 2 powi 128 then Some r else None)"

definition f32_mul :: "real \<Rightarrow> real \<Rightarrow> real option" where
  "f32_mul a b = f32_round (a * b)"

text \<open>
  \<^verbatim>\<open>.astype(np.int16)\<close> is the C conversion from \<^verbatim>\<open>float\<close> to
  \<^verbatim>\<open>short\<close>: the fraction is discarded (truncation toward zero). NumPy does not
  check the range. The conversion goes through a 32-bit integer of which the low
  16 bits are kept, so a value outside the 16-bit range wraps around; outside the
  32-bit range, and for an infinity, the result depends on the processor and is
  \<open>None\<close> here.
\<close>

definition c_trunc :: "real \<Rightarrow> int" where
  "c_trunc x = (if 0 \<le> x then \<lfloor>x\<rfloor> else \<lceil>x\<rceil>)"

definition astype_int16 :: "real option \<Rightarrow> sample" where
  "astype_int16 v = (case v of
       None \<Rightarrow> None
     | Some x \<Rightarrow> (let t = c_trunc x in
         if - (2 ^ 31) \<le> t \<and> t < 2 ^ 31 then Some (word_of_int t) else None))"

text \<open>Line 157, \<^verbatim>\<open>audio_int16 = (audio_data * 32767).astype(np.int16)\<close>, element by element.\<close>

definition to_int16 :: "real \<Rightarrow> sample" where
  "to_int16 a = astype_int16 (f32_mul a 32767)"

definition audio_int16 :: "real list \<Rightarrow> sample list" where
  "audio_int16 audio_data = map to_int16 audio_data"

subsection \<open>Strings\<close>

text \<open>
  \<^verbatim>\<open>str.strip()\<close> removes the leading and trailing characters for which
  \<^verbatim>\<open>str.isspace\<close> holds: the ASCII controls 9 to 13 and 28 to 31, the space, and
  the Unicode spaces and line separators.
\<close>

definition py_isspace :: "nat \<Rightarrow> bool" where
  "py_isspace c = ((9 \<le> c \<and> c \<le> 13) \<or> (28 \<le> c \<and> c \<le> 32) \<or> c = 133 \<or> c = 160
     \<or> c = 5760 \<or> (8192 \<le> c \<and> c \<le> 8202) \<or> c = 8232 \<or> c = 8233 \<or> c = 8239
     \<or> c = 8287 \<or> c = 12288)"

definition py_lstrip :: "py_str \<Rightarrow> py_str" where
  "py_lstrip s = dropWhile py_isspace s"

definition py_rstrip :: "py_str \<Rightarrow> py_str" where
  "py_rstrip s = rev (dropWhile py_isspace (rev s))"

definition py_strip :: "py_str \<Rightarrow> py_str" where
  "py_strip s = py_lstrip (py_rstrip s)"

text \<open>
  \<^verbatim>\<open>os.path.join(a, b)\<close> on a POSIX system: an absolute \<open>b\<close> replaces \<open>a\<close>,
  otherwise the two are joined with one separator.
\<close>

definition os_path_join :: "string \<Rightarrow> string \<Rightarrow> string" where
  "os_path_join a b =
     (if b \<noteq> [] \<and> hd b = CHR ''/'' then b
      else if a = [] \<or> last a = CHR ''/'' then a @ b
      else a @ ''/'' @ b)"

subsection \<open>The functions of the script\<close>

text \<open>Lines 66 to 72.\<close>

definition is_cuda_available :: "world \<Rightarrow> bool run" where
  "is_cuda_available w = ([CudaProbe],
     (case torch w of ImportError \<Rightarrow> Returns False | Available b \<Rightarrow> Returns b))"

text \<open>Lines 74 to 88: argparse returns the namespace or leaves the process itself.\<close>

definition parse_arguments :: "world \<Rightarrow> args run" where
  "parse_arguments w = ([], cli w)"

text \<open>Lines 90 to 94.\<close>

definition create_output_directory :: "world \<Rightarrow> string \<Rightarrow> string run" where
  "create_output_directory w base_dir =
     (if \<not> dir_exists w then call (Makedirs base_dir) (makedirs_fails w) base_dir
      else ([], Returns base_dir))"

text \<open>
  \<^verbatim>\<open>sd.rec(frames, samplerate=..., channels=1, dtype=np.float32)\<close> allocates an
  array of \<open>frames\<close> rows, which the device fills in the background, and returns it
  at once; a negative number of rows is refused.
\<close>

definition sd_rec :: "world \<Rightarrow> int \<Rightarrow> int \<Rightarrow> real list run" where
  "sd_rec w frames samplerate =
     call (SdRec frames samplerate) (rec_fails w \<or> frames < 0)
       (map (microphone w) [0..<nat frames])"

text \<open>The countdown loop, lines 124 to 127: \<^verbatim>\<open>for remaining in range(duration, 0, -1)\<close>.\<close>

definition py_range_down :: "int \<Rightarrow> int list" where
  "py_range_down n = rev [1..n]"

fun countdown :: "int list \<Rightarrow> unit run" where
  "countdown [] = ([], Returns ())"
| "countdown (remaining # rest) = and_then ([Tick remaining], Returns ()) (\<lambda>_. countdown rest)"

text \<open>Lines 96 to 138.\<close>

definition record_audio :: "world \<Rightarrow> int \<Rightarrow> int \<Rightarrow> real list run" where
  "record_audio w dur rate =
     (if dur \<le> 0 then ([], Exits 1)
      else except_exit (
        and_then (sd_rec w (dur * rate) rate) (\<lambda>audio_data.
        and_then (countdown (py_range_down dur)) (\<lambda>_.
        and_then (call SdWait (wait_fails w) ()) (\<lambda>_.
        ([], Returns audio_data))))))"

text \<open>Lines 140 to 166. The name of the file is built outside the \<^verbatim>\<open>try\<close>.\<close>

definition save_audio :: "world \<Rightarrow> real list \<Rightarrow> int \<Rightarrow> string \<Rightarrow> string option run" where
  "save_audio w audio_data rate output_dir =
     (let timestamp = now w;
          filename = os_path_join output_dir (''recording_'' @ timestamp @ ''.wav'')
      in except_return None (
        and_then (call (WriteWav filename rate (audio_int16 audio_data)) (write_fails w) ()) (\<lambda>_.
        ([], Returns (Some filename)))))"

text \<open>Lines 168 to 203. The device is chosen before the \<^verbatim>\<open>try\<close>.\<close>

definition load_whisper_model :: "world \<Rightarrow> model_size \<Rightarrow> bool \<Rightarrow> whisper_model run" where
  "load_whisper_model w msize latest =
     and_then (is_cuda_available w) (\<lambda>cuda.
       let (dev, ct) = (if cuda then (''cuda'', ''float16'') else (''cpu'', ''int8''))
       in except_exit (
         and_then (if latest then call (DownloadModel msize) (download_fails w) ()
                   else ([], Returns ())) (\<lambda>_.
         and_then (call (LoadModel msize dev ct) (load_fails w)
                     \<lparr>loaded_size = msize, device = dev, compute_type = ct\<rparr>) (\<lambda>m.
         ([], Returns m)))))"

text \<open>The loop of lines 230 to 232: \<^verbatim>\<open>transcript += segment.text + " "\<close>.\<close>

fun collect_segments :: "py_str \<Rightarrow> segments \<Rightarrow> py_str run" where
  "collect_segments transcript Exhausted = ([], Returns transcript)"
| "collect_segments transcript (Yield s rest) =
     collect_segments (transcript @ (segment_text s @ py '' '')) rest"
| "collect_segments transcript Faulty = ([], Raises)"

text \<open>
  \<^verbatim>\<open>model.transcribe(audio_file, beam_size=5, word_timestamps=True, vad_filter=True,
  vad_parameters=dict(min_silence_duration_ms=500))\<close>; the keyword arguments are constants.
\<close>

definition model_transcribe :: "world \<Rightarrow> whisper_model \<Rightarrow> string \<Rightarrow> segments run" where
  "model_transcribe w m audio_file =
     ([Transcribe audio_file],
      (case engine w audio_file of CallRaises \<Rightarrow> Raises | Generator g \<Rightarrow> Returns g))"

definition transcription_failed :: py_str where
  "transcription_failed = py ''Transcription failed. Please check logs.''"

text \<open>Lines 205 to 241.\<close>

definition transcribe_audio :: "world \<Rightarrow> whisper_model \<Rightarrow> string \<Rightarrow> py_str run" where
  "transcribe_audio w m audio_file =
     except_return transcription_failed (
       and_then (model_transcribe w m audio_file) (\<lambda>segs.
       and_then (collect_segments [] segs) (\<lambda>transcript.
       ([], Returns (py_strip transcript)))))"

text \<open>
  Lines 243 to 280. \<^verbatim>\<open>if not audio_file\<close> holds for \<^verbatim>\<open>None\<close> and for the
  empty string.
\<close>

definition main :: "world \<Rightarrow> unit run" where
  "main w = except_exit (
     and_then (parse_arguments w) (\<lambda>a.
     and_then (create_output_directory w ''recordings'') (\<lambda>output_dir.
     and_then (load_whisper_model w (model a) (download_latest a)) (\<lambda>m.
     and_then (record_audio w (duration a) (sample_rate a)) (\<lambda>audio_data.
     and_then (save_audio w audio_data (sample_rate a) output_dir) (\<lambda>audio_file.
       (case audio_file of
          None \<Rightarrow> ([], Exits 1)
        | Some f \<Rightarrow>
            if f = [] then ([], Exits 1)
            else and_then (transcribe_audio w m f) (\<lambda>transcript.
                 ([Display transcript], Returns ())))))))))"

subsection \<open>The conversion as the specification words it\<close>

text \<open>
  Section 4.3 of the specification gives the conversion as \<^verbatim>\<open>round(a * 32767)\<close>.
  Python's \<^verbatim>\<open>round\<close> takes the nearest integer, a tie going to the even one.
\<close>

definition rounded_sample :: "real \<Rightarrow> int option" where
  "rounded_sample a = map_option rne (f32_mul a 32767)"

subsection \<open>Notions used in the statements\<close>

text \<open>
  The device and the precision as section 4.1 of the specification gives them:
  accelerated with half precision when the probe reports availability, and
  general-purpose with 8-bit quantisation when it does not or cannot be run.
\<close>

definition select_device :: "probe \<Rightarrow> string \<times> string" where
  "select_device p = (if p = Available True then (''cuda'', ''float16'') else (''cpu'', ''int8''))"

text \<open>
  A finite sequence of segments as a generator that ends normally; the segments a
  generator yields before it stops; whether it stops by exhaustion.
\<close>

fun generator_of :: "segment list \<Rightarrow> segments" where
  "generator_of [] = Exhausted"
| "generator_of (s # ss) = Yield s (generator_of ss)"

fun yielded :: "segments \<Rightarrow> segment list" where
  "yielded Exhausted = []"
| "yielded (Yield s rest) = s # yielded rest"
| "yielded Faulty = []"

fun ends_normally :: "segments \<Rightarrow> bool" where
  "ends_normally Exhausted = True"
| "ends_normally (Yield s rest) = ends_normally rest"
| "ends_normally Faulty = False"

text \<open>What \<open>transcribe_audio\<close> is to return for each behaviour of the engine.\<close>

definition transcript_of :: "recognition \<Rightarrow> py_str" where
  "transcript_of r = (case r of
       CallRaises \<Rightarrow> transcription_failed
     | Generator g \<Rightarrow>
         if ends_normally g
         then py_strip (concat (map (\<lambda>s. segment_text s @ py '' '') (yielded g)))
         else transcription_failed)"

text \<open>
  The transcript as section 4.4 of the specification words it: the segment texts
  joined with single spaces, leading and trailing whitespace removed.
\<close>

fun join_with_spaces :: "py_str list \<Rightarrow> py_str" where
  "join_with_spaces [] = []"
| "join_with_spaces [t] = t"
| "join_with_spaces (t # u # ts) = t @ py '' '' @ join_with_spaces (u # ts)"

definition assembled_transcript :: "segment list \<Rightarrow> py_str" where
  "assembled_transcript segs = py_strip (join_with_spaces (map segment_text segs))"

text \<open>
  The file written by a run and the samples the device delivers for the requested
  number of frames. Then the order of section 4.5 of the specification (device
  selection and load of the model, recording, save, transcription), as the calls of
  a run in which no collaborator fails: \<open>up_to_capture\<close> ends with the wait on the
  device, \<open>pipeline_order\<close> goes on to the display of the transcript.
\<close>

definition recording_path :: "world \<Rightarrow> string" where
  "recording_path w = ''recordings/recording_'' @ now w @ ''.wav''"

definition captured :: "world \<Rightarrow> args \<Rightarrow> real list" where
  "captured w a = map (microphone w) [0..<nat (duration a * sample_rate a)]"

definition up_to_capture :: "world \<Rightarrow> args \<Rightarrow> event list" where
  "up_to_capture w a =
     (if dir_exists w then [] else [Makedirs ''recordings'']) @
     [CudaProbe] @
     (if download_latest a then [DownloadModel (model a)] else []) @
     [LoadModel (model a) (fst (select_device (torch w))) (snd (select_device (torch w)))] @
     [SdRec (duration a * sample_rate a) (sample_rate a)] @
     map Tick (rev [1..duration a]) @
     [SdWait]"

definition pipeline_order :: "world \<Rightarrow> args \<Rightarrow> event list" where
  "pipeline_order w a =
     up_to_capture w a @
     [WriteWav (recording_path w) (sample_rate a) (map to_int16 (captured w a)),
      Transcribe (recording_path w),
      Display (transcript_of (engine w (recording_path w)))]"

text \<open>
  A world in which every collaborator succeeds: two seconds at three samples a
  second, two segments recognised.
\<close>

definition example_args :: args where
  "example_args = \<lparr>duration = 2, model = Base, sample_rate = 3, download_latest = True\<rparr>"

definition example_world :: world where
  "example_world = \<lparr>
     cli = Returns example_args,
     dir_exists = False,
     makedirs_fails = False,
     torch = Available True,
     download_fails = False,
     load_fails = False,
     rec_fails = False,
     microphone = (\<lambda>i. if even i then 1 / 4 else - 1 / 2),
     wait_fails = False,
     now = ''20240131_093000'',
     write_fails = False,
     engine = (\<lambda>f. Generator (Yield \<lparr>segment_text = py ''Hello''\<rparr>
                         (Yield \<lparr>segment_text = py '' world ''\<rparr> Exhausted)))\<rparr>"

definition example_model :: whisper_model where
  "example_model = \<lparr>loaded_size = Base, device = ''cuda'', compute_type = ''float16''\<rparr>"

section \<open>Auxiliary facts\<close>

subsection \<open>Rounding and the exponent search\<close>

lemma rne_cases: "rne x = \<lfloor>x\<rfloor> \<or> rne x = \<lfloor>x\<rfloor> + 1"
  by (simp add: rne_def Let_def)

lemma rne_of_int: "rne (of_int n) = n"
  by (simp add: rne_def Let_def)

lemma rne_le: "x \<le> of_int n \<Longrightarrow> rne x \<le> n"
proof -
  assume h: "x \<le> of_int n"
  show ?thesis
  proof (cases "x = of_int n")
    case True then show ?thesis by (simp add: rne_of_int)
  next
    case False
    with h have "x < of_int n" by simp
    then have "\<lfloor>x\<rfloor> < n" by (simp add: floor_less_iff)
    with rne_cases [of x] show ?thesis by auto
  qed
qed

lemma rne_ge: "of_int n \<le> x \<Longrightarrow> n \<le> rne x"
proof -
  assume "of_int n \<le> x"
  then have "n \<le> \<lfloor>x\<rfloor>" by (simp add: le_floor_iff)
  with rne_cases [of x] show ?thesis by auto
qed

lemma find_upto_Some:
  "find P [i..j] = Some e \<Longrightarrow> P e \<and> i \<le> e \<and> e \<le> j \<and> (\<forall>k. i \<le> k \<and> k < e \<longrightarrow> \<not> P k)"
proof (induction i j rule: upto.induct)
  case (1 i j)
  show ?case
  proof (cases "i \<le> j")
    case False
    with "1.prems" show ?thesis by (simp add: upto.simps)
  next
    case True
    then have u: "[i..j] = i # [i+1..j]" by (simp add: upto_rec1)
    show ?thesis
    proof (cases "P i")
      case True
      with u "1.prems" \<open>i \<le> j\<close> show ?thesis by auto
    next
      case False
      with u "1.prems" have "find P [i+1..j] = Some e" by simp
      from "1.IH" [OF \<open>i \<le> j\<close> this]
      have ih: "P e" "i + 1 \<le> e" "e \<le> j" "\<forall>k. i + 1 \<le> k \<and> k < e \<longrightarrow> \<not> P k"
        by blast+
      have "\<not> P k" if "i \<le> k" "k < e" for k
      proof (cases "k = i")
        case True with False show ?thesis by simp
      next
        case False
        with that have "i + 1 \<le> k" by simp
        with ih(4) that show ?thesis by blast
      qed
      with ih show ?thesis by auto
    qed
  qed
qed

lemma find_upto_None: "find P [i..j] = None \<Longrightarrow> i \<le> k \<Longrightarrow> k \<le> j \<Longrightarrow> \<not> P k"
  by (simp add: find_None_iff)

lemma f32_exponent_le:
  assumes "\<bar>x\<bar> < 2 powi (k + 1)" "-126 \<le> k" "k \<le> 127"
  shows "f32_exponent x \<le> k"
proof (cases "find (\<lambda>e. \<bar>x\<bar> < 2 powi (e + 1)) [-126..127]")
  case None
  from find_upto_None [OF None, of k] assms show ?thesis by simp
next
  case (Some e)
  from find_upto_Some [OF Some] assms have "\<not> k < e" by auto
  with Some show ?thesis by (simp add: f32_exponent_def)
qed

lemma f32_exponent_eq:
  assumes "2 powi k \<le> \<bar>x\<bar>" "\<bar>x\<bar> < 2 powi (k + 1)" "-126 \<le> k" "k \<le> 127"
  shows "f32_exponent x = k"
proof -
  have le: "f32_exponent x \<le> k" using assms by (intro f32_exponent_le) auto
  have "\<not> f32_exponent x < k"
  proof
    assume lt: "f32_exponent x < k"
    obtain e where e: "find (\<lambda>e. \<bar>x\<bar> < 2 powi (e + 1)) [-126..127] = Some e"
      using lt assms by (cases "find (\<lambda>e. \<bar>x\<bar> < 2 powi (e + 1)) [-126..127]") (auto simp: f32_exponent_def)
    then have fe: "f32_exponent x = e" by (simp add: f32_exponent_def)
    from find_upto_Some [OF e] have "\<bar>x\<bar> < 2 powi (e + 1)" by simp
    moreover have "(2::real) powi (e + 1) \<le> 2 powi k"
      using lt fe by (intro power_int_increasing) auto
    ultimately show False using assms(1) by simp
  qed
  with le show ?thesis by simp
qed

text \<open>A product within the 16-bit range is rounded to a float within that range.\<close>

lemma f32_round_in_range:
  assumes "\<bar>x\<bar> \<le> 32767"
  shows "\<exists>p. f32_round x = Some p \<and> \<bar>p\<bar> \<le> 32767"
proof -
  define e where "e = f32_exponent x"
  define k where "k = nat (23 - e)"
  have "\<bar>x\<bar> < 2 powi (14 + 1)" using assms by simp
  then have "e \<le> 14" unfolding e_def by (intro f32_exponent_le) auto
  then have ek: "e - 23 = - int k" by (simp add: k_def)
  define q :: real where "q = 2 powi (e - 23)"
  have q: "q = 1 / 2 ^ k" by (simp add: q_def ek power_int_minus divide_simps)
  have qpos: "0 < q" by (simp add: q)
  have xq: "x / q = x * 2 ^ k" by (simp add: q)
  have "x \<le> 32767" using assms by simp
  then have "x * 2 ^ k \<le> 32767 * 2 ^ k" by (intro mult_right_mono) simp_all
  then have up: "x / q \<le> of_int (32767 * 2 ^ k)" by (simp add: xq)
  have "- 32767 \<le> x" using assms by simp
  then have "- 32767 * 2 ^ k \<le> x * 2 ^ k" by (intro mult_right_mono) simp_all
  then have lo: "of_int (- 32767 * 2 ^ k) \<le> x / q" by (simp add: xq)
  define r where "r = rne (x / q)"
  from rne_le [OF up] have r1: "r \<le> 32767 * 2 ^ k" by (simp add: r_def)
  from rne_ge [OF lo] have r2: "- 32767 * 2 ^ k \<le> r" by (simp add: r_def)
  have "of_int r * q \<le> of_int (32767 * 2 ^ k) * q"
    using r1 qpos by (intro mult_right_mono) (simp_all only: of_int_le_iff less_imp_le)
  then have b1: "of_int r * q \<le> 32767" by (simp add: q)
  have "of_int (- 32767 * 2 ^ k) * q \<le> of_int r * q"
    using r2 qpos by (intro mult_right_mono) (simp_all only: of_int_le_iff less_imp_le)
  then have b2: "- 32767 \<le> of_int r * q" by (simp add: q)
  from b1 b2 have b: "\<bar>of_int r * q\<bar> \<le> 32767" by simp
  then have "\<bar>of_int r * q\<bar> < 2 powi 128" by simp
  with b show ?thesis
    by (simp add: f32_round_def Let_def e_def [symmetric] q_def [symmetric] r_def [symmetric])
qed

lemma c_trunc_bounds: "\<bar>p\<bar> \<le> of_int n \<Longrightarrow> \<bar>c_trunc p\<bar> \<le> n"
  by (auto simp: c_trunc_def abs_le_iff floor_le_iff le_floor_iff ceiling_le_iff le_ceiling_iff) linarith+

lemma sint_word16: "- 32768 \<le> t \<Longrightarrow> t < 32768 \<Longrightarrow> sint (word_of_int t :: 16 word) = t"
  by (simp add: signed_of_int signed_take_bit_int_eq_self)

lemma to_int16_in_range:
  assumes "\<bar>a\<bar> \<le> 1"
  shows "\<exists>p. f32_mul a 32767 = Some p \<and> \<bar>p\<bar> \<le> 32767
           \<and> to_int16 a = Some (word_of_int (c_trunc p))
           \<and> sint (word_of_int (c_trunc p) :: 16 word) = c_trunc p"
proof -
  have "\<bar>a * 32767\<bar> \<le> 32767" using assms by (simp add: abs_mult)
  from f32_round_in_range [OF this] obtain p where p: "f32_round (a * 32767) = Some p" "\<bar>p\<bar> \<le> 32767"
    by blast
  from c_trunc_bounds [of p 32767] p have t: "\<bar>c_trunc p\<bar> \<le> 32767" by simp
  then have "sint (word_of_int (c_trunc p) :: 16 word) = c_trunc p"
    by (intro sint_word16) auto
  moreover from t have "to_int16 a = Some (word_of_int (c_trunc p))"
    by (auto simp: to_int16_def f32_mul_def astype_int16_def p Let_def)
  ultimately show ?thesis using p by (simp add: f32_mul_def)
qed

lemma f32_mul_quarter: "f32_mul (1 / 4) 32767 = Some (32767 / 4)"
proof -
  have "f32_exponent (32767 / 4) = 12" by (rule f32_exponent_eq) simp_all
  then show ?thesis by (simp add: f32_mul_def f32_round_def Let_def rne_def power_int_minus)
qed

lemma f32_mul_one_half: "f32_mul (3 / 2) 32767 = Some (98301 / 2)"
proof -
  have "f32_exponent (98301 / 2) = 15" by (rule f32_exponent_eq) simp_all
  then show ?thesis by (simp add: f32_mul_def f32_round_def Let_def rne_def power_int_minus)
qed

lemma to_int16_quarter: "to_int16 (1 / 4) = Some 8191"
  by (simp add: to_int16_def f32_mul_quarter astype_int16_def c_trunc_def Let_def)

lemma to_int16_one_half: "to_int16 (3 / 2) = Some (word_of_int 49150)"
  by (simp add: to_int16_def f32_mul_one_half astype_int16_def c_trunc_def Let_def)

lemma f32_mul_one: "f32_mul 1 32767 = Some 32767"
proof -
  have "f32_exponent 32767 = 14" by (rule f32_exponent_eq) simp_all
  then show ?thesis by (simp add: f32_mul_def f32_round_def Let_def rne_def power_int_minus)
qed

lemma f32_mul_minus_one: "f32_mul (- 1) 32767 = Some (- 32767)"
proof -
  have "f32_exponent (- 32767) = 14" by (rule f32_exponent_eq) simp_all
  then show ?thesis by (simp add: f32_mul_def f32_round_def Let_def rne_def power_int_minus)
qed

lemma to_int16_one: "to_int16 1 = Some 32767"
  by (simp add: to_int16_def f32_mul_one astype_int16_def c_trunc_def Let_def)

lemma to_int16_minus_one: "to_int16 (- 1) = Some (- 32767)"
  by (simp add: to_int16_def f32_mul_minus_one astype_int16_def c_trunc_def Let_def)

lemma c_trunc_toward_zero: "\<bar>real_of_int (c_trunc p)\<bar> \<le> \<bar>p\<bar> \<and> \<bar>p - real_of_int (c_trunc p)\<bar> < 1"
proof (cases "0 \<le> p")
  case True
  have f1: "real_of_int \<lfloor>p\<rfloor> \<le> p" by (rule of_int_floor_le)
  have f2: "p < real_of_int \<lfloor>p\<rfloor> + 1" by linarith
  have f3: "0 \<le> \<lfloor>p\<rfloor>" using True by simp
  then have f4: "0 \<le> real_of_int \<lfloor>p\<rfloor>" by simp
  have ct: "c_trunc p = \<lfloor>p\<rfloor>" using True by (simp add: c_trunc_def)
  have "\<bar>real_of_int \<lfloor>p\<rfloor>\<bar> \<le> \<bar>p\<bar>" using f1 f4 True by linarith
  moreover have "\<bar>p - real_of_int \<lfloor>p\<rfloor>\<bar> < 1" using f1 f2 by linarith
  ultimately show ?thesis by (simp only: ct)
next
  case False
  have c1: "p \<le> real_of_int \<lceil>p\<rceil>" by (rule le_of_int_ceiling)
  have c2: "real_of_int \<lceil>p\<rceil> < p + 1" by linarith
  have c3: "\<lceil>p\<rceil> \<le> 0" using False by (simp add: ceiling_le_iff)
  then have c4: "real_of_int \<lceil>p\<rceil> \<le> 0" by simp
  have ct: "c_trunc p = \<lceil>p\<rceil>" using False by (simp add: c_trunc_def)
  have "\<bar>real_of_int \<lceil>p\<rceil>\<bar> \<le> \<bar>p\<bar>" using c1 c4 False by linarith
  moreover have "\<bar>p - real_of_int \<lceil>p\<rceil>\<bar> < 1" using c1 c2 by linarith
  ultimately show ?thesis by (simp only: ct)
qed

lemma c_trunc_near_rne: "\<bar>c_trunc p - rne p\<bar> \<le> 1"
proof -
  have "\<lceil>p\<rceil> = \<lfloor>p\<rfloor> \<or> \<lceil>p\<rceil> = \<lfloor>p\<rfloor> + 1" by (auto simp: ceiling_altdef)
  with rne_cases [of p] show ?thesis by (auto simp: c_trunc_def)
qed

lemma save_audio_samples:
  "fst (save_audio w audio_data rate output_dir) =
     [WriteWav (os_path_join output_dir (''recording_'' @ now w @ ''.wav'')) rate (map to_int16 audio_data)]"
  by (simp add: save_audio_def Let_def and_then_def call_def except_return_def audio_int16_def)

lemma f32_mul_half: "f32_mul (1 / 2) 32767 = Some (32767 / 2)"
proof -
  have "f32_exponent (32767 / 2) = 13" by (rule f32_exponent_eq) simp_all
  then show ?thesis by (simp add: f32_mul_def f32_round_def Let_def rne_def power_int_minus)
qed

lemma f32_mul_near_integer: "f32_mul (5343139 / 8388608) 32767 = Some 20871"
proof -
  have "f32_exponent (5343139 / 8388608 * 32767) = 14" by (rule f32_exponent_eq) simp_all
  then show ?thesis by (simp add: f32_mul_def f32_round_def Let_def rne_def power_int_minus)
qed

lemma f32_round_near_integer: "f32_round (5343139 / 8388608) = Some (5343139 / 8388608)"
proof -
  have "f32_exponent (5343139 / 8388608) = - 1"
    by (rule f32_exponent_eq) (simp_all add: power_int_minus)
  then show ?thesis by (simp add: f32_round_def Let_def rne_def power_int_minus)
qed

subsection \<open>The functions as explicit runs\<close>

lemma create_output_directory_run:
  "create_output_directory w d =
     (if dir_exists w then [] else [Makedirs d],
      if \<not> dir_exists w \<and> makedirs_fails w then Raises else Returns d)"
  by (simp add: create_output_directory_def call_def)

lemma load_whisper_model_run:
  "load_whisper_model w s l =
     ([CudaProbe] @ (if l then [DownloadModel s] else []) @
        (if l \<and> download_fails w then []
         else [LoadModel s (fst (select_device (torch w))) (snd (select_device (torch w)))]),
      if (l \<and> download_fails w) \<or> load_fails w then Exits 1
      else Returns \<lparr>loaded_size = s, device = fst (select_device (torch w)),
                     compute_type = snd (select_device (torch w))\<rparr>)"
  by (cases "torch w")
     (auto simp: load_whisper_model_def is_cuda_available_def select_device_def and_then_def
        call_def except_exit_def)

lemma countdown_run: "countdown rs = (map Tick rs, Returns ())"
  by (induction rs) (simp_all add: and_then_def)

lemma record_audio_run:
  "record_audio w d r =
     (if d \<le> 0 then ([], Exits 1)
      else if rec_fails w \<or> d * r < 0 then ([SdRec (d * r) r], Exits 1)
      else (SdRec (d * r) r # map Tick (rev [1..d]) @ [SdWait],
            if wait_fails w then Exits 1 else Returns (map (microphone w) [0..<nat (d * r)])))"
  by (simp add: record_audio_def sd_rec_def countdown_run py_range_down_def and_then_def
        call_def except_exit_def)

lemma save_audio_run:
  "save_audio w data r dir =
     ([WriteWav (os_path_join dir (''recording_'' @ now w @ ''.wav'')) r (map to_int16 data)],
      if write_fails w then Returns None
      else Returns (Some (os_path_join dir (''recording_'' @ now w @ ''.wav''))))"
  by (simp add: save_audio_def Let_def and_then_def call_def except_return_def audio_int16_def)

lemma collect_segments_run:
  "collect_segments acc g =
     ([], if ends_normally g
          then Returns (acc @ concat (map (\<lambda>s. segment_text s @ py '' '') (yielded g)))
          else Raises)"
  by (induction acc g rule: collect_segments.induct) simp_all

lemma transcribe_audio_run:
  "transcribe_audio w m f = ([Transcribe f], Returns (transcript_of (engine w f)))"
  by (cases "engine w f")
     (simp_all add: transcribe_audio_def model_transcribe_def collect_segments_run and_then_def
        except_return_def transcript_of_def)

lemma main_run:
  assumes "cli w = Returns a"
  shows "main w =
    (let t_dir = (if dir_exists w then [] else [Makedirs ''recordings'']);
         dev = fst (select_device (torch w)); ct = snd (select_device (torch w));
         t_probe = CudaProbe # (if download_latest a then [DownloadModel (model a)] else []);
         t_load = t_probe @ [LoadModel (model a) dev ct];
         frames = duration a * sample_rate a;
         t_save = [WriteWav (recording_path w) (sample_rate a) (map to_int16 (captured w a))]
     in
     if \<not> dir_exists w \<and> makedirs_fails w then (t_dir, Exits 1)
     else if download_latest a \<and> download_fails w then (t_dir @ t_probe, Exits 1)
     else if load_fails w then (t_dir @ t_load, Exits 1)
     else if duration a \<le> 0 then (t_dir @ t_load, Exits 1)
     else if rec_fails w \<or> frames < 0 then (t_dir @ t_load @ [SdRec frames (sample_rate a)], Exits 1)
     else if wait_fails w then (up_to_capture w a, Exits 1)
     else if write_fails w then (up_to_capture w a @ t_save, Exits 1)
     else (pipeline_order w a, Returns ()))"
  by (simp add: main_def parse_arguments_def assms and_then_def except_exit_def
        create_output_directory_run load_whisper_model_run record_audio_run save_audio_run
        transcribe_audio_run os_path_join_def pipeline_order_def up_to_capture_def recording_path_def
        captured_def Let_def)

lemma main_no_args:
  assumes "\<forall>a. cli w \<noteq> Returns a"
  shows "fst (main w) = [] \<and> (\<exists>n. snd (main w) = Exits n)"
  using assms by (cases "cli w") (simp_all add: main_def parse_arguments_def and_then_def except_exit_def)

lemma up_to_capture_events:
  "Transcribe f \<notin> set (up_to_capture w a)" "WriteWav f r s \<notin> set (up_to_capture w a)"
  "Display t \<notin> set (up_to_capture w a)"
  by (auto simp: up_to_capture_def)

lemma example_cli: "cli example_world = Returns example_args"
  by (simp add: example_world_def)

lemma distinct_pipeline_order: "distinct (pipeline_order w a)"
  by (auto simp: pipeline_order_def up_to_capture_def distinct_map inj_on_def)

lemma example_main_returns: "snd (main example_world) = Returns ()"
  unfolding main_run [OF example_cli] Let_def
  by (simp add: example_world_def example_args_def)

lemma example_pipeline_order:
  "pipeline_order example_world example_args =
     [Makedirs ''recordings'', CudaProbe, DownloadModel Base, LoadModel Base ''cuda'' ''float16'',
      SdRec 6 3, Tick 2, Tick 1, SdWait,
      WriteWav ''recordings/recording_20240131_093000.wav'' 3
        (map to_int16 [1 / 4, - 1 / 2, 1 / 4, - 1 / 2, 1 / 4, - 1 / 2]),
      Transcribe ''recordings/recording_20240131_093000.wav'',
      Display (transcript_of (engine example_world ''recordings/recording_20240131_093000.wav''))]"
proof -
  have u: "rev [1..2::int] = [2, 1]" by (simp add: upto.simps)
  have n: "[0..<6] = [0, 1, 2, 3, 4, 5::nat]" by (simp add: upt_rec)
  have c: "captured example_world example_args = [1 / 4, - 1 / 2, 1 / 4, - 1 / 2, 1 / 4, - 1 / 2]"
    by (simp add: captured_def example_world_def example_args_def n)
  have p: "recording_path example_world = ''recordings/recording_20240131_093000.wav''"
    by (simp add: recording_path_def example_world_def)
  have f: "dir_exists example_world = False" "torch example_world = Available True"
    "download_latest example_args = True" "model example_args = Base"
    "duration example_args = 2" "sample_rate example_args = 3"
    by (simp_all add: example_world_def example_args_def)
  show ?thesis
    by (simp add: pipeline_order_def up_to_capture_def c p f u select_device_def)
qed

subsection \<open>Assembling the transcript\<close>

lemma py_space: "py '' '' = [32]"
  by (simp add: py_def)

lemma py_rstrip_space: "py_rstrip (s @ py '' '') = py_rstrip s"
  by (simp add: py_rstrip_def py_space py_isspace_def)

lemma py_strip_space: "py_strip (s @ py '' '') = py_strip s"
  by (simp add: py_strip_def py_rstrip_space)

lemma concat_join:
  "ts \<noteq> [] \<Longrightarrow> concat (map (\<lambda>t. t @ py '' '') ts) = join_with_spaces ts @ py '' ''"
  by (induction ts rule: join_with_spaces.induct) simp_all

lemma strip_concat_join:
  "py_strip (concat (map (\<lambda>t. t @ py '' '') ts)) = py_strip (join_with_spaces ts)"
proof (cases "ts = []")
  case True
  then show ?thesis by simp
next
  case False
  then show ?thesis by (simp add: concat_join py_strip_space)
qed

lemma yielded_generator_of: "yielded (generator_of segs) = segs"
  by (induction segs) simp_all

lemma ends_normally_generator_of: "ends_normally (generator_of segs)"
  by (induction segs) simp_all

section \<open>The claims\<close>

subsection \<open>The pipeline\<close>

text \<open>
  Claim C1: if saving the recording fails, so that \<open>save_audio\<close> returns
  \<^verbatim>\<open>None\<close>, the engine is never asked to transcribe and the process exits with
  status 1; a transcription is only ever asked for on the path returned by a save
  that succeeded, right after that save. \<open>save_audio\<close> returns \<^verbatim>\<open>None\<close> exactly
  when writing the file raises.
\<close>

theorem failed_save_skips_transcription:
  "(snd (save_audio w data r dir) = Returns None) = write_fails w
   \<and> (write_fails w \<longrightarrow>
        (\<forall>f. Transcribe f \<notin> set (fst (main w))) \<and>
        ((\<exists>f r s. WriteWav f r s \<in> set (fst (main w))) \<longrightarrow> snd (main w) = Exits 1))
   \<and> (Transcribe f \<in> set (fst (main w)) \<longrightarrow>
        \<not> write_fails w \<and>
        (\<exists>pre r data post.
           fst (main w) = pre @ WriteWav f r (map to_int16 data) # Transcribe f # post \<and>
           snd (save_audio w data r ''recordings'') = Returns (Some f)))"
proof (intro conjI impI)
  show "(snd (save_audio w data r dir) = Returns None) = write_fails w"
    by (simp add: save_audio_run)
next
  assume wf: "write_fails w"
  show "\<forall>f. Transcribe f \<notin> set (fst (main w))"
  proof (cases "\<exists>a. cli w = Returns a")
    case False
    then show ?thesis using main_no_args [of w] by simp
  next
    case True
    then obtain a where a: "cli w = Returns a" by blast
    show ?thesis using wf up_to_capture_events(1) [of _ w a]
      by (auto simp: main_run [OF a] Let_def up_to_capture_def)
  qed
next
  assume wf: "write_fails w" and ex: "\<exists>f r s. WriteWav f r s \<in> set (fst (main w))"
  show "snd (main w) = Exits 1"
  proof (cases "\<exists>a. cli w = Returns a")
    case False
    then show ?thesis using main_no_args [of w] ex by simp
  next
    case True
    then obtain a where a: "cli w = Returns a" by blast
    show ?thesis using wf by (auto simp: main_run [OF a] Let_def)
  qed
next
  assume tr: "Transcribe f \<in> set (fst (main w))"
  have ex: "\<exists>a. cli w = Returns a"
  proof (rule ccontr)
    assume "\<not> ?thesis"
    then have "fst (main w) = []" using main_no_args [of w] by simp
    with tr show False by simp
  qed
  then obtain a where a: "cli w = Returns a" by blast
  have ok: "main w = (pipeline_order w a, Returns ())"
    using tr by (auto simp: main_run [OF a] Let_def up_to_capture_def split: if_splits)
  with tr have f: "f = recording_path w"
    using up_to_capture_events(1) [of f w a] by (auto simp: pipeline_order_def)
  have nf: "\<not> write_fails w"
    using ok by (auto simp: main_run [OF a] Let_def split: if_splits)
  show "\<not> write_fails w" by (rule nf)
  have "fst (main w) = up_to_capture w a @ WriteWav f (sample_rate a) (map to_int16 (captured w a))
           # Transcribe f # [Display (transcript_of (engine w (recording_path w)))]"
    by (simp add: ok pipeline_order_def f)
  moreover have "snd (save_audio w (captured w a) (sample_rate a) ''recordings'') = Returns (Some f)"
    using nf by (simp add: save_audio_run os_path_join_def f recording_path_def)
  ultimately show "\<exists>pre r data post.
           fst (main w) = pre @ WriteWav f r (map to_int16 data) # Transcribe f # post \<and>
           snd (save_audio w data r ''recordings'') = Returns (Some f)"
    by blast
qed

theorem failed_save_skips_transcription_witness:
  "write_fails (example_world\<lparr>write_fails := True\<rparr>)
   \<and> (\<exists>f r s. WriteWav f r s \<in> set (fst (main (example_world\<lparr>write_fails := True\<rparr>))))
   \<and> snd (main (example_world\<lparr>write_fails := True\<rparr>)) = Exits 1
   \<and> (\<forall>f. Transcribe f \<notin> set (fst (main (example_world\<lparr>write_fails := True\<rparr>))))
   \<and> Transcribe ''recordings/recording_20240131_093000.wav'' \<in> set (fst (main example_world))
   \<and> \<not> write_fails example_world"
proof -
  let ?w = "example_world\<lparr>write_fails := True\<rparr>"
  have a: "cli ?w = Returns example_args" by (simp add: example_world_def)
  have wf: "write_fails ?w" by simp
  have "WriteWav (recording_path ?w) 3 (map to_int16 (captured ?w example_args)) \<in> set (fst (main ?w))"
    unfolding main_run [OF a] Let_def by (simp add: example_world_def example_args_def)
  then have wr: "\<exists>f r s. WriteWav f r s \<in> set (fst (main ?w))" by blast
  have tr: "Transcribe ''recordings/recording_20240131_093000.wav'' \<in> set (fst (main example_world))"
    unfolding main_run [OF example_cli] Let_def
    by (simp add: example_world_def example_args_def pipeline_order_def recording_path_def)
  from failed_save_skips_transcription [of ?w "[]" 3 "''recordings''" "''a.wav''"] wf wr
  have "snd (main ?w) = Exits 1" "\<forall>f. Transcribe f \<notin> set (fst (main ?w))" by blast+
  moreover from failed_save_skips_transcription [of example_world "[]" 3 "''recordings''" "''recordings/recording_20240131_093000.wav''"] tr
  have "\<not> write_fails example_world" by blast
  ultimately show ?thesis using wf wr tr by blast
qed

text \<open>
  Claim C7: the calls of every run are an initial part of one fixed sequence: the
  directory, the probe of the device, the optional download, the load of the model,
  the start of the capture, the countdown, the wait on the device, the write of the
  file, the transcription, the display. A run that returns makes all of them. The
  capture is only started after the model has been loaded, and the file is only
  written after the wait on the device has returned.
\<close>

theorem pipeline_runs_in_fixed_order:
  assumes "cli w = Returns a"
  shows "prefix (fst (main w)) (pipeline_order w a)
   \<and> distinct (pipeline_order w a)
   \<and> (snd (main w) = Returns () \<longrightarrow> fst (main w) = pipeline_order w a)
   \<and> ((\<exists>n r. SdRec n r \<in> set (fst (main w))) \<longrightarrow>
        \<not> load_fails w \<and>
        LoadModel (model a) (fst (select_device (torch w))) (snd (select_device (torch w)))
          \<in> set (fst (main w)))
   \<and> ((\<exists>f r s. WriteWav f r s \<in> set (fst (main w))) \<longrightarrow>
        \<not> wait_fails w \<and> prefix (up_to_capture w a) (fst (main w)))"
proof (intro conjI impI)
  show "prefix (fst (main w)) (pipeline_order w a)"
    by (simp add: main_run [OF assms] Let_def pipeline_order_def up_to_capture_def)
  show "distinct (pipeline_order w a)" by (rule distinct_pipeline_order)
next
  assume "snd (main w) = Returns ()"
  then show "fst (main w) = pipeline_order w a"
    by (auto simp: main_run [OF assms] Let_def split: if_splits)
next
  assume r: "\<exists>n r. SdRec n r \<in> set (fst (main w))"
  then show "\<not> load_fails w"
    by (auto simp: main_run [OF assms] Let_def split: if_splits)
  from r show "LoadModel (model a) (fst (select_device (torch w))) (snd (select_device (torch w)))
          \<in> set (fst (main w))"
    by (auto simp: main_run [OF assms] Let_def pipeline_order_def up_to_capture_def split: if_splits)
next
  assume s: "\<exists>f r s. WriteWav f r s \<in> set (fst (main w))"
  then show "\<not> wait_fails w"
    by (auto simp: main_run [OF assms] Let_def up_to_capture_def split: if_splits)
  from s show "prefix (up_to_capture w a) (fst (main w))"
    using up_to_capture_events(2) [of _ _ _ w a]
    by (auto simp: main_run [OF assms] Let_def pipeline_order_def up_to_capture_def split: if_splits)
qed

theorem pipeline_runs_in_fixed_order_witness:
  "cli example_world = Returns example_args \<and> snd (main example_world) = Returns ()
   \<and> fst (main example_world) =
     [Makedirs ''recordings'', CudaProbe, DownloadModel Base, LoadModel Base ''cuda'' ''float16'',
      SdRec 6 3, Tick 2, Tick 1, SdWait,
      WriteWav ''recordings/recording_20240131_093000.wav'' 3
        (map to_int16 [1 / 4, - 1 / 2, 1 / 4, - 1 / 2, 1 / 4, - 1 / 2]),
      Transcribe ''recordings/recording_20240131_093000.wav'',
      Display (transcript_of (engine example_world ''recordings/recording_20240131_093000.wav''))]"
proof -
  from pipeline_runs_in_fixed_order [OF example_cli] example_main_returns
  have "fst (main example_world) = pipeline_order example_world example_args" by blast
  then show ?thesis by (simp only: example_pipeline_order example_cli example_main_returns simp_thms)
qed

subsection \<open>Recording\<close>

text \<open>
  Claim C4: for every duration that is not positive, whatever the sample rate,
  \<open>record_audio\<close> leaves through \<^verbatim>\<open>sys.exit(1)\<close> without any call to the
  device; the whole run then ends with status 1 and neither starts a capture nor
  waits for one.
\<close>

theorem nonpositive_duration_is_fatal:
  assumes "dur \<le> 0"
  shows "record_audio w dur rate = ([], Exits 1)
     \<and> (cli w = Returns a \<and> duration a = dur \<longrightarrow>
          snd (main w) = Exits 1 \<and> SdWait \<notin> set (fst (main w))
          \<and> (\<forall>n r. SdRec n r \<notin> set (fst (main w))))"
proof (intro conjI impI)
  show "record_audio w dur rate = ([], Exits 1)" using assms by (simp add: record_audio_def)
next
  assume h: "cli w = Returns a \<and> duration a = dur"
  then have a: "cli w = Returns a" and d: "duration a \<le> 0" using assms by simp_all
  show "snd (main w) = Exits 1" using d by (simp add: main_run [OF a] Let_def)
  show "SdWait \<notin> set (fst (main w))" using d by (auto simp: main_run [OF a] Let_def)
  show "\<forall>n r. SdRec n r \<notin> set (fst (main w))" using d by (auto simp: main_run [OF a] Let_def)
qed

theorem nonpositive_duration_is_fatal_witness:
  "(0::int) \<le> 0 \<and> record_audio example_world 0 16000 = ([], Exits 1)
   \<and> record_audio example_world (- 5) 16000 = ([], Exits 1)
   \<and> snd (main (example_world\<lparr>cli := Returns (example_args\<lparr>duration := 0\<rparr>)\<rparr>)) = Exits 1
   \<and> SdWait \<notin> set (fst (main (example_world\<lparr>cli := Returns (example_args\<lparr>duration := 0\<rparr>)\<rparr>)))"
  using nonpositive_duration_is_fatal [of 0 "example_world\<lparr>cli := Returns (example_args\<lparr>duration := 0\<rparr>)\<rparr>" 16000 "example_args\<lparr>duration := 0\<rparr>"]
        nonpositive_duration_is_fatal [of 0 example_world 16000 example_args]
        nonpositive_duration_is_fatal [of "- 5" example_world 16000 example_args]
  by simp

text \<open>
  Claim C5: for a positive duration and a positive sample rate \<open>record_audio\<close>
  asks the device for exactly \<open>duration * sample_rate\<close> frames, and the recording
  it returns has exactly that many samples. It returns one whenever neither the
  start of the capture nor the wait on the device raises.
\<close>

theorem recording_has_duration_times_rate_samples:
  assumes "0 < dur" and "0 < rate"
  shows "\<exists>t r. record_audio w dur rate = (SdRec (dur * rate) rate # t, r)
     \<and> (r = Exits 1 \<or> (\<exists>data. r = Returns data \<and> int (length data) = dur * rate))
     \<and> ((\<exists>data. r = Returns data) = (\<not> rec_fails w \<and> \<not> wait_fails w))"
proof -
  from assms have pos: "0 < dur * rate" by simp
  define data where "data = map (microphone w) [0..<nat (dur * rate)]"
  have len: "int (length data) = dur * rate" using pos by (simp add: data_def)
  from assms have d: "(dur \<le> 0) = False" by simp
  from pos have nn: "(dur * rate < 0) = False" by simp
  have ra: "record_audio w dur rate =
     (if rec_fails w then ([SdRec (dur * rate) rate], Exits 1)
      else (SdRec (dur * rate) rate # map Tick (rev [1..dur]) @ [SdWait],
            if wait_fails w then Exits 1 else Returns data))"
    by (simp only: record_audio_run d nn data_def if_False simp_thms)
  show ?thesis
  proof (cases "rec_fails w")
    case True
    with ra have "record_audio w dur rate = (SdRec (dur * rate) rate # [], Exits 1)" by simp
    with True show ?thesis by blast
  next
    case nr: False
    show ?thesis
    proof (cases "wait_fails w")
      case True
      with ra nr have "record_audio w dur rate =
          (SdRec (dur * rate) rate # (map Tick (rev [1..dur]) @ [SdWait]), Exits 1)" by simp
      with True show ?thesis by blast
    next
      case False
      with ra nr have "record_audio w dur rate =
          (SdRec (dur * rate) rate # (map Tick (rev [1..dur]) @ [SdWait]), Returns data)" by simp
      with False nr len show ?thesis by blast
    qed
  qed
qed

theorem recording_has_duration_times_rate_samples_witness:
  "(0::int) < 1 \<and> (0::int) < 16000
   \<and> (\<exists>t data. record_audio example_world 1 16000 = (SdRec 16000 16000 # t, Returns data)
          \<and> length data = 16000)"
proof -
  from recording_has_duration_times_rate_samples [of 1 16000 example_world] obtain t r where
    r: "record_audio example_world 1 16000 = (SdRec (1 * 16000) 16000 # t, r)"
      "r = Exits 1 \<or> (\<exists>data. r = Returns data \<and> int (length data) = 1 * 16000)"
      "(\<exists>data. r = Returns data) = (\<not> rec_fails example_world \<and> \<not> wait_fails example_world)"
    by auto
  have "\<not> rec_fails example_world \<and> \<not> wait_fails example_world" by (simp add: example_world_def)
  with r(2,3) obtain data where "r = Returns data" "int (length data) = 16000" by auto
  with r(1) show ?thesis by auto
qed

subsection \<open>The device\<close>

text \<open>
  Claim C6: the device and the precision are a function of the answer of the
  probe. If CUDA is reported available they are \<^verbatim>\<open>cuda\<close> and
  \<^verbatim>\<open>float16\<close>; if it is reported unavailable, or torch cannot be imported, they
  are \<^verbatim>\<open>cpu\<close> and \<^verbatim>\<open>int8\<close>. The model is built with these and no other
  values.
\<close>

theorem device_selection_follows_probe:
  "select_device (Available True) = (''cuda'', ''float16'')
   \<and> select_device (Available False) = (''cpu'', ''int8'')
   \<and> select_device ImportError = (''cpu'', ''int8'')
   \<and> is_cuda_available w = ([CudaProbe], Returns (torch w = Available True))
   \<and> (\<forall>e \<in> set (fst (load_whisper_model w s l)).
        e = CudaProbe \<or> e = DownloadModel s
        \<or> e = LoadModel s (fst (select_device (torch w))) (snd (select_device (torch w))))
   \<and> (\<forall>m. snd (load_whisper_model w s l) = Returns m \<longrightarrow>
        (device m, compute_type m) = select_device (torch w)
        \<and> LoadModel s (device m) (compute_type m) \<in> set (fst (load_whisper_model w s l)))
   \<and> ((\<exists>m. snd (load_whisper_model w s l) = Returns m) = (\<not> load_fails w \<and> \<not> (l \<and> download_fails w)))"
proof -
  have "is_cuda_available w = ([CudaProbe], Returns (torch w = Available True))"
    by (cases "torch w") (simp_all add: is_cuda_available_def)
  then show ?thesis
    by (auto simp: select_device_def load_whisper_model_run)
qed

theorem device_selection_follows_probe_witness:
  "(\<exists>m. load_whisper_model example_world Base False =
           ([CudaProbe, LoadModel Base ''cuda'' ''float16''], Returns m)
        \<and> device m = ''cuda'' \<and> compute_type m = ''float16'')
   \<and> (\<exists>m. snd (load_whisper_model (example_world\<lparr>torch := ImportError\<rparr>) Base False) = Returns m
        \<and> device m = ''cpu'' \<and> compute_type m = ''int8'')
   \<and> (\<exists>m. snd (load_whisper_model (example_world\<lparr>torch := Available False\<rparr>) Base False) = Returns m
        \<and> device m = ''cpu'' \<and> compute_type m = ''int8'')"
proof -
  have f: "\<not> load_fails example_world" "torch example_world = Available True"
    by (simp_all add: example_world_def)
  have ev: "fst (load_whisper_model example_world Base False) = [CudaProbe, LoadModel Base ''cuda'' ''float16'']"
    by (simp add: load_whisper_model_run f select_device_def)
  from device_selection_follows_probe [of example_world Base False] f obtain m where
    m: "snd (load_whisper_model example_world Base False) = Returns m"
       "(device m, compute_type m) = select_device (Available True)" by auto
  from device_selection_follows_probe [of "example_world\<lparr>torch := ImportError\<rparr>" Base False] f obtain m2 where
    m2: "snd (load_whisper_model (example_world\<lparr>torch := ImportError\<rparr>) Base False) = Returns m2"
       "(device m2, compute_type m2) = select_device ImportError" by auto
  from device_selection_follows_probe [of "example_world\<lparr>torch := Available False\<rparr>" Base False] f obtain m3 where
    m3: "snd (load_whisper_model (example_world\<lparr>torch := Available False\<rparr>) Base False) = Returns m3"
       "(device m3, compute_type m3) = select_device (Available False)" by auto
  have "load_whisper_model example_world Base False = ([CudaProbe, LoadModel Base ''cuda'' ''float16''], Returns m)"
    using ev m(1) by (simp add: prod_eq_iff)
  with m m2 m3 show ?thesis by (auto simp: select_device_def)
qed

subsection \<open>Transcription\<close>

text \<open>
  Claim C8: \<open>transcribe_audio\<close> always returns a string and does nothing but call
  the engine. If the call raises, or the generator raises while it is consumed, the
  string is the failure message; otherwise it is the assembled transcript.
\<close>

theorem transcribe_audio_always_returns:
  "(\<exists>s. transcribe_audio w m f = ([Transcribe f], Returns s))
   \<and> (engine w f = CallRaises \<longrightarrow> snd (transcribe_audio w m f) = Returns transcription_failed)
   \<and> (\<forall>g. engine w f = Generator g \<and> \<not> ends_normally g \<longrightarrow>
        snd (transcribe_audio w m f) = Returns transcription_failed)
   \<and> (\<forall>g. engine w f = Generator g \<and> ends_normally g \<longrightarrow>
        snd (transcribe_audio w m f) =
          Returns (py_strip (concat (map (\<lambda>s. segment_text s @ py '' '') (yielded g)))))"
  by (simp add: transcribe_audio_run transcript_of_def)

theorem transcribe_audio_always_returns_witness:
  "transcribe_audio (example_world\<lparr>engine := \<lambda>f. CallRaises\<rparr>) example_model ''a.wav''
     = ([Transcribe ''a.wav''], Returns transcription_failed)
   \<and> transcribe_audio
        (example_world\<lparr>engine := \<lambda>f. Generator (Yield \<lparr>segment_text = py ''Hello''\<rparr> Faulty)\<rparr>) example_model ''a.wav''
     = ([Transcribe ''a.wav''], Returns transcription_failed)"
proof -
  let ?w1 = "example_world\<lparr>engine := \<lambda>f. CallRaises\<rparr>"
  let ?w2 = "example_world\<lparr>engine := \<lambda>f. Generator (Yield \<lparr>segment_text = py ''Hello''\<rparr> Faulty)\<rparr>"
  from transcribe_audio_always_returns [of ?w1 example_model "''a.wav''"] have 1: "fst (transcribe_audio ?w1 example_model ''a.wav'') = [Transcribe ''a.wav'']"
    "snd (transcribe_audio ?w1 example_model ''a.wav'') = Returns transcription_failed" by auto
  from transcribe_audio_always_returns [of ?w2 example_model "''a.wav''"] have 2: "fst (transcribe_audio ?w2 example_model ''a.wav'') = [Transcribe ''a.wav'']"
    "snd (transcribe_audio ?w2 example_model ''a.wav'') = Returns transcription_failed" by auto
  from 1 2 show ?thesis by (simp add: prod_eq_iff)
qed

text \<open>
  Claim C9: for every finite sequence of segments the transcript returned is the
  segment texts in their order, joined with single spaces, with leading and
  trailing whitespace removed.
\<close>

theorem transcript_is_joined_and_stripped:
  assumes "engine w f = Generator (generator_of segs)"
  shows "transcribe_audio w m f = ([Transcribe f], Returns (assembled_transcript segs))"
proof -
  have "concat (map (\<lambda>s. segment_text s @ py '' '') segs)
          = concat (map (\<lambda>t. t @ py '' '') (map segment_text segs))"
    by (simp add: comp_def)
  then have "py_strip (concat (map (\<lambda>s. segment_text s @ py '' '') segs))
          = assembled_transcript segs"
    by (simp only: strip_concat_join assembled_transcript_def)
  then show ?thesis
    by (simp add: transcribe_audio_run transcript_of_def assms yielded_generator_of
          ends_normally_generator_of)
qed

theorem transcript_is_joined_and_stripped_witness:
  "engine example_world ''a.wav'' =
      Generator (generator_of [\<lparr>segment_text = py ''Hello''\<rparr>, \<lparr>segment_text = py '' world ''\<rparr>])
   \<and> transcribe_audio example_world example_model ''a.wav'' = ([Transcribe ''a.wav''], Returns (py ''Hello  world''))"
proof -
  have e: "engine example_world ''a.wav'' =
      Generator (generator_of [\<lparr>segment_text = py ''Hello''\<rparr>, \<lparr>segment_text = py '' world ''\<rparr>])"
    by (simp add: example_world_def)
  have "assembled_transcript [\<lparr>segment_text = py ''Hello''\<rparr>, \<lparr>segment_text = py '' world ''\<rparr>]
          = py ''Hello  world''"
    by (simp add: assembled_transcript_def py_strip_def py_lstrip_def py_rstrip_def py_def py_isspace_def)
  with transcript_is_joined_and_stripped [OF e, of example_model] e show ?thesis by simp
qed

subsection \<open>The conversion to 16 bits\<close>

text \<open>
  Claim C2 says that the stored sample is \<^verbatim>\<open>round(a * 32767)\<close>, the nearest
  integer. It is not: for the amplitude 0.25 the product 8191.75 is a float32, the
  sample written is 8191, and the nearest integer is 8192.
\<close>

theorem to_int16_is_not_rounding:
  "to_int16 (1 / 4) = Some 8191 \<and> rounded_sample (1 / 4) = Some 8192
     \<and> sint (8191 :: 16 word) = 8191 \<and> round (1 / 4 * 32767 :: real) = 8192"
  by (simp add: to_int16_quarter rounded_sample_def f32_mul_quarter rne_def round_def)

text \<open>
  Claim C2, amended: for every amplitude \<open>a\<close> in the range from -1 to 1 the stored
  sample is the float32 product \<open>a * 32767\<close> with its fraction discarded. It is
  never larger in magnitude than the product, less than 1 away from it, and at most 1
  away from the nearest integer.
\<close>

theorem to_int16_discards_fraction:
  assumes "\<bar>a\<bar> \<le> 1"
  shows "(\<exists>p s. f32_mul a 32767 = Some p \<and> to_int16 a = Some s \<and> rounded_sample a = Some (rne p)
     \<and> sint s = c_trunc p \<and> \<bar>real_of_int (c_trunc p)\<bar> \<le> \<bar>p\<bar> \<and> \<bar>p - real_of_int (c_trunc p)\<bar> < 1
     \<and> \<bar>c_trunc p - rne p\<bar> \<le> 1)
   \<and> fst (save_audio w audio_data rate output_dir) =
       [WriteWav (os_path_join output_dir (''recording_'' @ now w @ ''.wav'')) rate
          (map to_int16 audio_data)]"
proof -
  from to_int16_in_range [OF assms] obtain p where
    p: "f32_mul a 32767 = Some p" "to_int16 a = Some (word_of_int (c_trunc p))"
       "sint (word_of_int (c_trunc p) :: 16 word) = c_trunc p" by blast
  show ?thesis
    using p c_trunc_toward_zero [of p] c_trunc_near_rne [of p]
    by (simp add: rounded_sample_def save_audio_samples)
qed

theorem to_int16_discards_fraction_witness:
  "\<bar>1 / 4 :: real\<bar> \<le> 1 \<and> f32_mul (1 / 4) 32767 = Some (32767 / 4) \<and> to_int16 (1 / 4) = Some 8191
    \<and> rounded_sample (1 / 4) = Some 8192 \<and> c_trunc (32767 / 4) = 8191"
  using to_int16_discards_fraction [of "1 / 4" example_world "[1 / 4]" 3 "''recordings''"]
  by (simp add: to_int16_quarter rounded_sample_def f32_mul_quarter rne_def c_trunc_def)

text \<open>
  Claim C3 says that the stored sample is \<open>a * 32767\<close> truncated toward zero. Read
  as the exact product, it is not: the amplitude 5343139 / 8388608 is a float32 in
  the range from -1 to 1, its exact product with 32767 is just below 20871 and
  truncates to 20870, but the float32 multiplication rounds the product to 20871,
  and 20871 is stored.
\<close>

theorem to_int16_is_not_the_exact_product_truncated:
  "\<bar>5343139 / 8388608 :: real\<bar> \<le> 1
   \<and> f32_round (5343139 / 8388608) = Some (5343139 / 8388608)
   \<and> f32_mul (5343139 / 8388608) 32767 = Some 20871
   \<and> to_int16 (5343139 / 8388608) = Some 20871
   \<and> sint (20871 :: 16 word) = 20871
   \<and> c_trunc (5343139 / 8388608 * 32767) = 20870"
  by (simp add: f32_mul_near_integer f32_round_near_integer to_int16_def astype_int16_def
        c_trunc_def Let_def)

text \<open>
  Claim C3, amended: for every amplitude \<open>a\<close> in the range from -1 to 1 the stored
  sample is the float32 product \<open>a * 32767\<close>, that is the exact product rounded once
  to the nearest float32, truncated toward zero; the amplitude 1.0 is stored as
  32767 and the amplitude -1.0 as -32767.
\<close>

theorem to_int16_truncates_toward_zero:
  assumes "\<bar>a\<bar> \<le> 1"
  shows "(\<exists>p s. f32_mul a 32767 = Some p \<and> to_int16 a = Some s \<and> sint s = c_trunc p)
       \<and> (\<exists>s. to_int16 1 = Some s \<and> sint s = 32767)
       \<and> (\<exists>s. to_int16 (- 1) = Some s \<and> sint s = - 32767)
       \<and> fst (save_audio w audio_data rate output_dir) =
           [WriteWav (os_path_join output_dir (''recording_'' @ now w @ ''.wav'')) rate
              (map to_int16 audio_data)]"
proof -
  from to_int16_in_range [OF assms]
  have "\<exists>p s. f32_mul a 32767 = Some p \<and> to_int16 a = Some s \<and> sint s = c_trunc p"
    by blast
  then show ?thesis by (simp add: to_int16_one to_int16_minus_one save_audio_samples)
qed

theorem to_int16_truncates_toward_zero_witness:
  "\<bar>1 / 2 :: real\<bar> \<le> 1 \<and> f32_mul (1 / 2) 32767 = Some (32767 / 2) \<and>
   (\<exists>s. to_int16 (1 / 2) = Some s \<and> sint s = 16383)"
proof -
  from to_int16_truncates_toward_zero [of "1 / 2" example_world "[1 / 2]" 3 "''recordings''"]
  obtain p s where
    ps: "f32_mul (1 / 2) 32767 = Some p" "to_int16 (1 / 2) = Some s" "sint s = c_trunc p" by auto
  from ps(1) have p: "p = 32767 / 2" by (simp only: f32_mul_half option.inject)
  have "c_trunc (32767 / 2) = 16383" by (simp add: c_trunc_def)
  with p have "c_trunc p = 16383" by (simp only:)
  with ps show ?thesis by (simp add: f32_mul_half)
qed

text \<open>
  Claim C10: the conversion does not saturate. For the amplitude 1.5 the product is
  49150.5; the stored sample is neither 32767 nor -32768 but 49150 reduced modulo
  \<open>2 ^ 16\<close> into the signed range, -16386, and this is what \<open>save_audio\<close> writes.
\<close>

theorem to_int16_wraps_around:
  "f32_mul (3 / 2) 32767 = Some (98301 / 2) \<and> c_trunc (98301 / 2) = 49150
   \<and> (\<exists>s. to_int16 (3 / 2) = Some s \<and> sint s = 49150 - 2 ^ 16 \<and> sint s \<noteq> 32767 \<and> sint s \<noteq> - 32768)
   \<and> fst (save_audio w [3 / 2] rate output_dir) =
       [WriteWav (os_path_join output_dir (''recording_'' @ now w @ ''.wav'')) rate [Some (- 16386)]]"
  by (simp add: f32_mul_one_half to_int16_one_half c_trunc_def save_audio_samples)

end
